theory Spec2Isabelle
  imports Main "HOL-Library.Word"
begin

section \<open>Strings and numbers of the host language\<close>

text \<open>
  A JavaScript string is a sequence of 16-bit code units: \<open>length\<close> is \<open>.length\<close>,
  \<open>take 30\<close> is \<open>.slice(0, 30)\<close> and \<open>@\<close> is \<open>+\<close>. A literal of the source is written
  \<open>lit ''...''\<close>; every character of the literals used here is below U+0100, where the code
  unit is the character's number.
\<close>

type_synonym code_unit = "16 word"
type_synonym jsstring = "code_unit list"

definition lit :: "string \<Rightarrow> jsstring" where
  "lit s = map (\<lambda>c. of_char c) s"

text \<open>\<open>String.prototype.trim\<close>: strips WhiteSpace and LineTerminator code points at both ends.\<close>

definition isWhiteSpace :: "code_unit \<Rightarrow> bool" where
  "isWhiteSpace c \<longleftrightarrow>
     c \<in> set [0x9, 0xA, 0xB, 0xC, 0xD, 0x20, 0xA0, 0x1680, 0x2028, 0x2029,
               0x202F, 0x205F, 0x3000, 0xFEFF]
     \<or> (0x2000 \<le> c \<and> c \<le> 0x200A)"

definition trim :: "jsstring \<Rightarrow> jsstring" where
  "trim s = rev (dropWhile isWhiteSpace (rev (dropWhile isWhiteSpace s)))"

text \<open>\<open>Number.prototype.toString\<close> on the integers that \<open>Date.now()\<close> returns.\<close>

definition digit :: "nat \<Rightarrow> code_unit" where
  "digit d = of_nat (48 + d)"

function natToString :: "nat \<Rightarrow> jsstring" where
  "natToString n = (if n < 10 then [digit n] else natToString (n div 10) @ [digit (n mod 10)])"
  by pat_completeness auto
termination
  by (relation "measure id") auto

declare natToString.simps [simp del]

definition toString :: "int \<Rightarrow> jsstring" where
  "toString i = (if i < 0 then 0x2D # natToString (nat (- i)) else natToString (nat i))"

text \<open>Truthiness of a \<open>string | null\<close> value: \<open>null\<close> and the empty string are falsy.\<close>

definition truthy :: "jsstring option \<Rightarrow> bool" where
  "truthy v = (case v of None \<Rightarrow> False | Some s \<Rightarrow> s \<noteq> [])"

text \<open>\<open>Array.prototype.findIndex\<close>, with \<open>None\<close> for \<open>-1\<close>.\<close>

fun findIndex :: "('a \<Rightarrow> bool) \<Rightarrow> 'a list \<Rightarrow> nat option" where
  "findIndex P [] = None"
| "findIndex P (x # xs) = (if P x then Some 0 else map_option Suc (findIndex P xs))"

section \<open>Data model (types.ts)\<close>

datatype Role = User | Model

record GroundingWebSource =
  uri :: jsstring
  title_web :: jsstring

record GroundingChunk =
  web :: "GroundingWebSource option"

record GroundingMetadata =
  groundingChunks :: "GroundingChunk list"

text \<open>A \<open>Date\<close> object: a time value in milliseconds since the epoch, or the invalid date.\<close>

datatype Date = Date int | InvalidDate

record Message =
  id_msg :: jsstring
  role :: Role
  content :: jsstring
  timestamp :: Date
  isStreaming :: "bool option"
  isError :: "bool option"
  groundingMetadata :: "GroundingMetadata option"
  image :: "jsstring option"
  attachments :: "jsstring list option"

record ChatSession =
  id_session :: jsstring
  title :: jsstring
  messages_session :: "Message list"
  createdAt :: int

section \<open>The generation client (services/geminiService.ts)\<close>

record TextPart =
  text_part :: jsstring

record HistoryTurn =
  role_turn :: Role
  parts_turn :: "TextPart list"

record ChatConfig =
  googleSearch :: bool
  imageConfig :: "(jsstring \<times> jsstring) option"

record Chat =
  model :: jsstring
  history :: "HistoryTurn list"
  config :: ChatConfig

text \<open>
  \<open>getGeminiChat\<close>: the chat handle is the model id, the seeded history (\<open>history || []\<close>)
  and the per-model switches. The constant system instruction, temperature and topK are the
  same for every handle and left out.
\<close>

definition getGeminiChat :: "jsstring \<Rightarrow> HistoryTurn list option \<Rightarrow> Chat" where
  "getGeminiChat modelId hist =
     \<lparr> model = modelId,
       history = (case hist of None \<Rightarrow> [] | Some h \<Rightarrow> h),
       config = \<lparr> googleSearch = (modelId \<noteq> lit ''gemini-2.5-flash-image''),
                  imageConfig = (if modelId = lit ''gemini-3-pro-image-preview''
                                 then Some (lit ''1:1'', lit ''1K'') else None) \<rparr> \<rparr>"

text \<open>
  One element of the response stream, as the merge loop reads it: \<open>chunk.text\<close>,
  \<open>chunk.candidates?.[0]?.groundingMetadata\<close> and \<open>chunk.candidates?.[0]?.content?.parts\<close>.
\<close>

record InlineData =
  mimeType :: jsstring
  data :: jsstring

record Part =
  inlineData :: "InlineData option"

record CandidateContent =
  parts :: "Part list option"

record Candidate =
  groundingMetadata_cand :: "GroundingMetadata option"
  content_cand :: "CandidateContent option"

record Chunk =
  text_chunk :: "jsstring option"
  candidates :: "Candidate list option"

text \<open>
  What consuming the stream yields: the chunks delivered, then either the end of the stream
  or a failure. A rejected \<open>sendMessageStream\<close> is a failure after no chunk.
\<close>

datatype StreamEnd = Completed | Failed

section \<open>Persisted form\<close>

text \<open>
  \<open>JSON.stringify\<close> writes every field as it is, except that a \<open>Date\<close> is written through
  \<open>toJSON\<close>: the ISO string of its time value, or \<open>null\<close> for the invalid date.
  \<open>IsoString t\<close> stands for the ISO-8601 text of the time value \<open>t\<close>.
\<close>

datatype JsonDate = IsoString int | JsonNull

record StoredMessage =
  id_stored :: jsstring
  role_stored :: Role
  content_stored :: jsstring
  timestamp_stored :: JsonDate
  isStreaming_stored :: "bool option"
  isError_stored :: "bool option"
  groundingMetadata_stored :: "GroundingMetadata option"
  image_stored :: "jsstring option"
  attachments_stored :: "jsstring list option"

record StoredSession =
  id_session_stored :: jsstring
  title_stored :: jsstring
  messages_stored :: "StoredMessage list"
  createdAt_stored :: int

text \<open>
  The content of the storage slot under the key of the application: the text of a session
  array as \<open>JSON.stringify\<close> writes it, given by its parsed tree, or any other text
  (\<open>JSON.parse\<close> or the rehydration throws on it and the \<open>catch\<close> swallows the failure).
\<close>

datatype Blob = Unparsable | JsonText "StoredSession list"

definition toJSON :: "Date \<Rightarrow> JsonDate" where
  "toJSON d = (case d of Date t \<Rightarrow> IsoString t | InvalidDate \<Rightarrow> JsonNull)"

text \<open>\<open>new Date(v)\<close> on a parsed timestamp: an ISO string gives its instant, \<open>null\<close> the epoch.\<close>

definition newDate :: "JsonDate \<Rightarrow> Date" where
  "newDate v = (case v of IsoString t \<Rightarrow> Date t | JsonNull \<Rightarrow> Date 0)"

definition stringifyMessage :: "Message \<Rightarrow> StoredMessage" where
  "stringifyMessage m =
     \<lparr> id_stored = id_msg m, role_stored = role m, content_stored = content m,
       timestamp_stored = toJSON (timestamp m), isStreaming_stored = isStreaming m,
       isError_stored = isError m, groundingMetadata_stored = groundingMetadata m,
       image_stored = image m, attachments_stored = attachments m \<rparr>"

definition stringifySession :: "ChatSession \<Rightarrow> StoredSession" where
  "stringifySession s =
     \<lparr> id_session_stored = id_session s, title_stored = title s,
       messages_stored = map stringifyMessage (messages_session s),
       createdAt_stored = createdAt s \<rparr>"

definition stringify :: "ChatSession list \<Rightarrow> Blob" where
  "stringify ss = JsonText (map stringifySession ss)"

definition hydrateMessage :: "StoredMessage \<Rightarrow> Message" where
  "hydrateMessage m =
     \<lparr> id_msg = id_stored m, role = role_stored m, content = content_stored m,
       timestamp = newDate (timestamp_stored m), isStreaming = isStreaming_stored m,
       isError = isError_stored m, groundingMetadata = groundingMetadata_stored m,
       image = image_stored m, attachments = attachments_stored m \<rparr>"

definition hydrateSession :: "StoredSession \<Rightarrow> ChatSession" where
  "hydrateSession s =
     \<lparr> id_session = id_session_stored s, title = title_stored s,
       messages_session = map hydrateMessage (messages_stored s),
       createdAt = createdAt_stored s \<rparr>"

section \<open>Application state (App)\<close>

record AppState =
  sessions :: "ChatSession list"
  currentSessionId :: "jsstring option"
  messages :: "Message list"
  isLoading :: bool
  isSidebarOpen :: bool
  selectedModelId :: jsstring
  chatInstanceRef :: "Chat option"
  localStorage :: "Blob option"

text \<open>The readings of the clock that one send takes, in the order of the source.\<close>

record Clock =
  now_sessionId :: int
  now_createdAt :: int
  now_userId :: int
  date_user :: int
  now_modelId :: int
  date_model :: int
  now_errorId :: int
  date_error :: int

subsection \<open>Effects\<close>

text \<open>
  Load on mount (lines 355-374): a parsed blob is rehydrated and sorted newest first by the
  comparator \<open>b.createdAt - a.createdAt\<close> (the sort of an array is stable, which
  \<open>sort_key\<close> is too); an absent or unparsable blob leaves the session list as it is.
\<close>

definition loadHistory :: "AppState \<Rightarrow> AppState" where
  "loadHistory st =
     (case localStorage st of
        Some (JsonText parsedSessions) \<Rightarrow>
          st\<lparr>sessions := sort_key (\<lambda>s. - createdAt s) (map hydrateSession parsedSessions)\<rparr>
      | _ \<Rightarrow> st)"

text \<open>The save effect (lines 382-386) writes a non-empty session list only.\<close>

definition saveEffect :: "AppState \<Rightarrow> AppState" where
  "saveEffect st =
     (if length (sessions st) > 0 then st\<lparr>localStorage := Some (stringify (sessions st))\<rparr>
      else st)"

text \<open>
  The title computed inside the sync effect (lines 394-400): \<open>find\<close> gives the first user
  message, \<open>slice(0, 30)\<close> cuts its content and \<open>...\<close> follows when it was longer.
\<close>

definition deriveTitle :: "ChatSession \<Rightarrow> Message list \<Rightarrow> jsstring" where
  "deriveTitle session msgs =
     (if title session = lit ''Nova Conversa'' \<and> length msgs > 0 then
        (case find (\<lambda>m. role m = User) msgs of
           Some firstUserMsg \<Rightarrow>
             take 30 (content firstUserMsg)
               @ (if length (content firstUserMsg) > 30 then lit ''...'' else [])
         | None \<Rightarrow> title session)
      else title session)"

definition syncSession :: "jsstring \<Rightarrow> Message list \<Rightarrow> ChatSession \<Rightarrow> ChatSession" where
  "syncSession cur msgs session =
     (if id_session session = cur
      then session\<lparr>messages_session := msgs, title := deriveTitle session msgs\<rparr>
      else session)"

definition syncEffect :: "AppState \<Rightarrow> AppState" where
  "syncEffect st =
     (case currentSessionId st of
        Some cur \<Rightarrow>
          if cur \<noteq> [] \<and> length (messages st) > 0
          then st\<lparr>sessions := map (syncSession cur (messages st)) (sessions st)\<rparr>
          else st
      | None \<Rightarrow> st)"

text \<open>The history handed to the client (lines 420-431): \<open>!m.isError\<close> keeps a message
  whose flag is absent or false.\<close>

definition projectHistory :: "Message list \<Rightarrow> HistoryTurn list" where
  "projectHistory msgs =
     map (\<lambda>m. \<lparr> role_turn = role m, parts_turn = [\<lparr> text_part = content m \<rparr>] \<rparr>)
       (filter (\<lambda>m. \<not> (isError m = Some True)) msgs)"

definition historyEffect :: "AppState \<Rightarrow> AppState" where
  "historyEffect st =
     st\<lparr>chatInstanceRef :=
          Some (getGeminiChat (selectedModelId st) (Some (projectHistory (messages st))))\<rparr>"

text \<open>
  One render after an update of the message list or of the active session: the message list
  is synchronised into the active session (lines 389-406), the chat handle is rebuilt from
  the message list (lines 417-434), and the changed session list is saved (lines 382-386).
  React runs an effect only when one of its dependencies changed; an effect that runs again
  on unchanged dependencies stores the value it stored before (\<open>settle_idem\<close> below), and the
  conversation that the handle accumulates inside the client is not part of the state.
\<close>

definition settle :: "AppState \<Rightarrow> AppState" where
  "settle st = saveEffect (historyEffect (syncEffect st))"

definition setMessages :: "(Message list \<Rightarrow> Message list) \<Rightarrow> AppState \<Rightarrow> AppState" where
  "setMessages f st = settle (st\<lparr>messages := f (messages st)\<rparr>)"

subsection \<open>Handlers\<close>

definition startNewChat :: "AppState \<Rightarrow> AppState" where
  "startNewChat st =
     settle (st\<lparr>chatInstanceRef := Some (getGeminiChat (selectedModelId st) None),
                messages := [], currentSessionId := None, isSidebarOpen := False\<rparr>)"

definition handleSelectSession :: "ChatSession \<Rightarrow> AppState \<Rightarrow> AppState" where
  "handleSelectSession session st =
     (if isLoading st then st
      else settle (st\<lparr>currentSessionId := Some (id_session session),
                       messages := messages_session session, isSidebarOpen := False\<rparr>))"

definition handleDeleteSession :: "jsstring \<Rightarrow> AppState \<Rightarrow> AppState" where
  "handleDeleteSession sessionId st =
     (let newSessions = filter (\<lambda>s. id_session s \<noteq> sessionId) (sessions st);
          st1 = st\<lparr>sessions := newSessions, localStorage := Some (stringify newSessions)\<rparr>
      in if currentSessionId st = Some sessionId then startNewChat st1 else saveEffect st1)"

subsection \<open>Sending a message and merging the stream\<close>

text \<open>
  \<open>handleSendMessage\<close> (lines 465-585). The three messages it builds; a field the object
  literal leaves out is \<open>None\<close>.
\<close>

definition userMsg :: "Clock \<Rightarrow> jsstring \<Rightarrow> jsstring list \<Rightarrow> Message" where
  "userMsg clk cont atts =
     \<lparr> id_msg = toString (now_userId clk), role = User, content = trim cont,
       timestamp = Date (date_user clk), isStreaming = None, isError = None,
       groundingMetadata = None, image = None, attachments = Some atts \<rparr>"

definition modelMsgId :: "Clock \<Rightarrow> jsstring" where
  "modelMsgId clk = toString (now_modelId clk + 1)"

definition modelMsg :: "Clock \<Rightarrow> Message" where
  "modelMsg clk =
     \<lparr> id_msg = modelMsgId clk, role = Model, content = [],
       timestamp = Date (date_model clk), isStreaming = Some True, isError = None,
       groundingMetadata = None, image = None, attachments = None \<rparr>"

definition errorNotice :: jsstring where
  "errorNotice =
     lit (''Desculpe, ocorreu um erro ao processar sua solicita'' @ [CHR 0xE7, CHR 0xE3]
          @ ''o. Por favor, tente novamente.'')"

definition errorMsg :: "Clock \<Rightarrow> Message" where
  "errorMsg clk =
     \<lparr> id_msg = toString (now_errorId clk), role = Model, content = errorNotice,
       timestamp = Date (date_error clk), isStreaming = None, isError = Some True,
       groundingMetadata = None, image = None, attachments = None \<rparr>"

text \<open>What the loop reads off a chunk (lines 518-532); \<open>chunk.text || ''\<close> is the text.\<close>

definition chunkText :: "Chunk \<Rightarrow> jsstring" where
  "chunkText chunk = (case text_chunk chunk of None \<Rightarrow> [] | Some t \<Rightarrow> t)"

definition firstCandidate :: "Chunk \<Rightarrow> Candidate option" where
  "firstCandidate chunk =
     (case candidates chunk of None \<Rightarrow> None | Some [] \<Rightarrow> None | Some (c # _) \<Rightarrow> Some c)"

definition chunkGrounding :: "Chunk \<Rightarrow> GroundingMetadata option" where
  "chunkGrounding chunk =
     (case firstCandidate chunk of None \<Rightarrow> None | Some c \<Rightarrow> groundingMetadata_cand c)"

definition chunkParts :: "Chunk \<Rightarrow> Part list option" where
  "chunkParts chunk =
     (case firstCandidate chunk of
        None \<Rightarrow> None
      | Some c \<Rightarrow> (case content_cand c of None \<Rightarrow> None | Some ct \<Rightarrow> parts ct))"

definition dataUri :: "InlineData \<Rightarrow> jsstring" where
  "dataUri d = lit ''data:'' @ mimeType d @ lit '';base64,'' @ data d"

text \<open>The loop over the parts: every part with inline data overwrites \<open>chunkImage\<close>.\<close>

fun scanParts :: "jsstring option \<Rightarrow> Part list \<Rightarrow> jsstring option" where
  "scanParts chunkImage [] = chunkImage"
| "scanParts chunkImage (part # rest) =
     scanParts (case inlineData part of Some d \<Rightarrow> Some (dataUri d) | None \<Rightarrow> chunkImage) rest"

definition chunkImage :: "Chunk \<Rightarrow> jsstring option" where
  "chunkImage chunk = (case chunkParts chunk of None \<Rightarrow> None | Some ps \<Rightarrow> scanParts None ps)"

text \<open>
  The updater of lines 534-556: the first message with the placeholder's id gets the text
  appended, the metadata replaced when the chunk has some, and the image replaced when the
  chunk gave a non-empty one; a list without such a message is returned as it is.
\<close>

definition applyChunk :: "Chunk \<Rightarrow> Message \<Rightarrow> Message" where
  "applyChunk chunk m =
     (let m1 = m\<lparr>content := content m @ chunkText chunk\<rparr>;
          m2 = (case chunkGrounding chunk of
                  Some g \<Rightarrow> m1\<lparr>groundingMetadata := Some g\<rparr> | None \<Rightarrow> m1)
      in if truthy (chunkImage chunk) then m2\<lparr>image := chunkImage chunk\<rparr> else m2)"

definition mergeChunk :: "jsstring \<Rightarrow> Chunk \<Rightarrow> Message list \<Rightarrow> Message list" where
  "mergeChunk mid chunk prev =
     (case findIndex (\<lambda>m. id_msg m = mid) prev of
        None \<Rightarrow> prev
      | Some i \<Rightarrow> prev[i := applyChunk chunk (prev ! i)])"

text \<open>The updater of lines 560-570, reached only when the loop ended without a failure.\<close>

definition markDone :: "jsstring \<Rightarrow> Message list \<Rightarrow> Message list" where
  "markDone mid prev =
     (case findIndex (\<lambda>m. id_msg m = mid) prev of
        None \<Rightarrow> prev
      | Some i \<Rightarrow> prev[i := (prev ! i)\<lparr>isStreaming := Some False\<rparr>])"

text \<open>The first guard of a send: nothing to send, or a send already in flight.\<close>

definition sendRejected :: "jsstring \<Rightarrow> jsstring list \<Rightarrow> AppState \<Rightarrow> bool" where
  "sendRejected cont atts st \<longleftrightarrow> (trim cont = [] \<and> length atts = 0) \<or> isLoading st"

definition initSession :: "Clock \<Rightarrow> AppState \<Rightarrow> AppState" where
  "initSession clk st =
     (if \<not> truthy (currentSessionId st) then
        st\<lparr>sessions := \<lparr> id_session = toString (now_sessionId clk), title = lit ''Nova Conversa'',
                          messages_session = [], createdAt = now_createdAt clk \<rparr> # sessions st,
           currentSessionId := Some (toString (now_sessionId clk)),
           chatInstanceRef := (case chatInstanceRef st of
                                 None \<Rightarrow> Some (getGeminiChat (selectedModelId st) None)
                               | Some c \<Rightarrow> Some c)\<rparr>
      else st)"

text \<open>
  The synchronous prefix of a send: the user message, the in-flight flag and the placeholder
  are set before the first suspension and show in one render.
\<close>

definition sendBegin :: "Clock \<Rightarrow> jsstring \<Rightarrow> jsstring list \<Rightarrow> AppState \<Rightarrow> AppState" where
  "sendBegin clk cont atts st =
     (let st1 = st\<lparr>messages := messages st @ [userMsg clk cont atts], isLoading := True\<rparr>
      in settle (st1\<lparr>messages := messages st1 @ [modelMsg clk]\<rparr>))"

definition sendStream :: "Clock \<Rightarrow> Chunk list \<Rightarrow> AppState \<Rightarrow> AppState" where
  "sendStream clk chunks st =
     foldl (\<lambda>s chunk. setMessages (mergeChunk (modelMsgId clk) chunk) s) st chunks"

text \<open>
  The end of the \<open>try\<close> block, or the \<open>catch\<close> block (lines 572-581), which appends the
  error message and nothing else; \<open>finally\<close> clears the in-flight flag in both cases.
\<close>

definition sendEnd :: "Clock \<Rightarrow> StreamEnd \<Rightarrow> AppState \<Rightarrow> AppState" where
  "sendEnd clk e st =
     (case e of
        Completed \<Rightarrow> (setMessages (markDone (modelMsgId clk)) st)\<lparr>isLoading := False\<rparr>
      | Failed \<Rightarrow> (setMessages (\<lambda>prev. prev @ [errorMsg clk]) st)\<lparr>isLoading := False\<rparr>)"

definition handleSendMessage ::
  "Clock \<Rightarrow> jsstring \<Rightarrow> jsstring list \<Rightarrow> Chunk list \<Rightarrow> StreamEnd \<Rightarrow> AppState \<Rightarrow> AppState" where
  "handleSendMessage clk cont atts chunks e st =
     (if sendRejected cont atts st then st
      else
        let st1 = initSession clk st in
        (case chatInstanceRef st1 of
           None \<Rightarrow> st1
         | Some chat \<Rightarrow> sendEnd clk e (sendStream clk chunks (sendBegin clk cont atts st1))))"

text \<open>The mount effect: load the history, then start a blank chat.\<close>

definition mount :: "jsstring \<Rightarrow> Blob option \<Rightarrow> AppState" where
  "mount modelId stored =
     startNewChat (loadHistory
       \<lparr> sessions = [], currentSessionId = None, messages = [], isLoading = False,
         isSidebarOpen = False, selectedModelId = modelId, chatInstanceRef = None,
         localStorage = stored \<rparr>)"

section \<open>Notions used by the properties\<close>

text \<open>
  A send proceeds when it passes the first guard and the second one (a chat handle exists;
  for a send without an active session the handle is created on the way).
\<close>

definition sendProceeds :: "jsstring \<Rightarrow> jsstring list \<Rightarrow> AppState \<Rightarrow> bool" where
  "sendProceeds cont atts st \<longleftrightarrow>
     \<not> sendRejected cont atts st
     \<and> (if truthy (currentSessionId st) then chatInstanceRef st \<noteq> None else True)"

text \<open>The placeholder's id is not the id of a message already in the list.\<close>

definition freshModelId :: "Clock \<Rightarrow> jsstring \<Rightarrow> jsstring list \<Rightarrow> AppState \<Rightarrow> bool" where
  "freshModelId clk cont atts st \<longleftrightarrow>
     modelMsgId clk \<notin> id_msg ` set (messages st @ [userMsg clk cont atts])"

text \<open>The placeholder after the given chunks have been merged into it.\<close>

definition merged :: "Clock \<Rightarrow> Chunk list \<Rightarrow> Message" where
  "merged clk chunks = foldl (\<lambda>m chunk. applyChunk chunk m) (modelMsg clk) chunks"

text \<open>Inputs for the concrete evaluations.\<close>

definition clockAt :: "int \<Rightarrow> Clock" where
  "clockAt t =
     \<lparr> now_sessionId = t, now_createdAt = t, now_userId = t, date_user = t,
       now_modelId = t, date_model = t, now_errorId = t + 3, date_error = t + 3 \<rparr>"

definition textFragment :: "jsstring \<Rightarrow> Chunk" where
  "textFragment t = \<lparr> text_chunk = Some t, candidates = None \<rparr>"


definition freshApp :: AppState where
  "freshApp = mount (lit ''gemini-2.5-flash'') None"

definition titleExample :: AppState where
  "titleExample =
     (initSession (clockAt 5) freshApp)\<lparr>messages := [userMsg (clockAt 5) (lit ''Hi there'') []]\<rparr>"

definition sessionAt :: "int \<Rightarrow> Message list \<Rightarrow> ChatSession" where
  "sessionAt t ms =
     \<lparr> id_session = toString t, title = lit ''Nova Conversa'', messages_session = ms, createdAt = t \<rparr>"



definition invalidMsg :: Message where
  "invalidMsg = (modelMsg (clockAt 5))\<lparr>timestamp := InvalidDate\<rparr>"

text \<open>A clock that steps back between the user message and the placeholder.\<close>

definition backClock :: Clock where
  "backClock = (clockAt 5)\<lparr>now_userId := 6\<rparr>"

section \<open>Basic facts\<close>

lemma messages_settle: "messages (settle st) = messages st"
  by (simp add: settle_def saveEffect_def historyEffect_def syncEffect_def split: option.splits)

lemma isLoading_settle: "isLoading (settle st) = isLoading st"
  by (simp add: settle_def saveEffect_def historyEffect_def syncEffect_def split: option.splits)

lemma currentSessionId_settle: "currentSessionId (settle st) = currentSessionId st"
  by (simp add: settle_def saveEffect_def historyEffect_def syncEffect_def split: option.splits)

lemma messages_setMessages: "messages (setMessages f st) = f (messages st)"
  by (simp add: setMessages_def messages_settle)

lemma isLoading_setMessages: "isLoading (setMessages f st) = isLoading st"
  by (simp add: setMessages_def isLoading_settle)

lemma messages_initSession: "messages (initSession clk st) = messages st"
  by (simp add: initSession_def)

lemma messages_sendBegin:
  "messages (sendBegin clk cont atts st) = messages st @ [userMsg clk cont atts, modelMsg clk]"
  by (simp add: sendBegin_def Let_def messages_settle)

lemma messages_sendStream:
  "messages (sendStream clk chunks st) =
     foldl (\<lambda>ms chunk. mergeChunk (modelMsgId clk) chunk ms) (messages st) chunks"
  unfolding sendStream_def
  by (induction chunks arbitrary: st) (simp_all add: messages_setMessages)

lemma isLoading_sendStream: "isLoading (sendStream clk chunks st) = isLoading st"
  unfolding sendStream_def
  by (induction chunks arbitrary: st) (simp_all add: isLoading_setMessages)

lemma findIndex_Some_less: "findIndex P xs = Some i \<Longrightarrow> i < length xs"
  by (induction xs arbitrary: i) (auto split: if_splits)

lemma findIndex_Some_holds: "findIndex P xs = Some i \<Longrightarrow> P (xs ! i)"
  by (induction xs arbitrary: i) (auto split: if_splits)

lemma findIndex_None_iff: "findIndex P xs = None \<longleftrightarrow> (\<forall>x \<in> set xs. \<not> P x)"
  by (induction xs) auto

lemma findIndex_append:
  "findIndex P (xs @ ys) =
     (case findIndex P xs of Some i \<Rightarrow> Some i
      | None \<Rightarrow> map_option (\<lambda>j. length xs + j) (findIndex P ys))"
proof (induction xs)
  case Nil
  show ?case by (cases "findIndex P ys") simp_all
next
  case (Cons x xs)
  then show ?case
    by (cases "findIndex P xs"; cases "findIndex P ys") simp_all
qed

lemma findIndex_update:
  "findIndex P xs = Some i \<Longrightarrow> P y \<Longrightarrow> findIndex P (xs[i := y]) = Some i"
  by (induction xs arbitrary: i) (auto split: if_splits)

lemma id_msg_applyChunk: "id_msg (applyChunk chunk m) = id_msg m"
  by (simp add: applyChunk_def Let_def split: option.splits)

lemma content_applyChunk: "content (applyChunk chunk m) = content m @ chunkText chunk"
  by (simp add: applyChunk_def Let_def split: option.splits)

lemma isStreaming_applyChunk: "isStreaming (applyChunk chunk m) = isStreaming m"
  by (simp add: applyChunk_def Let_def split: option.splits)

lemma foldl_mergeChunk:
  "findIndex (\<lambda>m. id_msg m = mid) prev = Some i \<Longrightarrow>
   foldl (\<lambda>ms chunk. mergeChunk mid chunk ms) prev chunks =
     prev[i := foldl (\<lambda>m chunk. applyChunk chunk m) (prev ! i) chunks]"
proof (induction chunks arbitrary: prev)
  case Nil
  then show ?case by simp
next
  case (Cons c cs)
  let ?prev' = "prev[i := applyChunk c (prev ! i)]"
  have i: "i < length prev" using Cons.prems by (rule findIndex_Some_less)
  have "id_msg (prev ! i) = mid" using findIndex_Some_holds [OF Cons.prems] .
  then have "findIndex (\<lambda>m. id_msg m = mid) ?prev' = Some i"
    using Cons.prems by (intro findIndex_update) (simp_all add: id_msg_applyChunk)
  from Cons.IH [OF this] show ?case
    using Cons.prems i by (simp add: mergeChunk_def)
qed

lemma content_foldl_applyChunk:
  "content (foldl (\<lambda>m chunk. applyChunk chunk m) m chunks) = content m @ concat (map chunkText chunks)"
  by (induction chunks arbitrary: m) (simp_all add: content_applyChunk)

lemma isStreaming_foldl_applyChunk:
  "isStreaming (foldl (\<lambda>m chunk. applyChunk chunk m) m chunks) = isStreaming m"
  by (induction chunks arbitrary: m) (simp_all add: isStreaming_applyChunk)

lemma id_msg_foldl_applyChunk:
  "id_msg (foldl (\<lambda>m chunk. applyChunk chunk m) m chunks) = id_msg m"
  by (induction chunks arbitrary: m) (simp_all add: id_msg_applyChunk)

lemma findIndex_placeholder:
  assumes "modelMsgId clk \<notin> id_msg ` set (prev @ [u])"
  shows "findIndex (\<lambda>m. id_msg m = modelMsgId clk) (prev @ [u, modelMsg clk]) = Some (Suc (length prev))"
proof -
  have "findIndex (\<lambda>m. id_msg m = modelMsgId clk) prev = None"
    using assms by (auto simp: findIndex_None_iff image_iff)
  moreover have "id_msg u \<noteq> modelMsgId clk" using assms by auto
  ultimately show ?thesis by (simp add: findIndex_append modelMsg_def)
qed

lemma messages_streamed:
  assumes "freshModelId clk cont atts st"
  shows "messages (sendStream clk chunks (sendBegin clk cont atts st)) =
           messages st @ [userMsg clk cont atts, merged clk chunks]"
proof -
  let ?prev = "messages st @ [userMsg clk cont atts, modelMsg clk]"
  have fi: "findIndex (\<lambda>m. id_msg m = modelMsgId clk) ?prev = Some (Suc (length (messages st)))"
    using assms findIndex_placeholder [of clk "messages st" "userMsg clk cont atts"]
    by (simp add: freshModelId_def)
  show ?thesis
    by (simp add: messages_sendStream messages_sendBegin foldl_mergeChunk [OF fi] merged_def
        nth_append list_update_append)
qed

lemma findIndex_streamed:
  assumes "freshModelId clk cont atts st"
  shows "findIndex (\<lambda>m. id_msg m = modelMsgId clk)
           (messages st @ [userMsg clk cont atts, merged clk chunks]) = Some (Suc (length (messages st)))"
proof -
  have "findIndex (\<lambda>m. id_msg m = modelMsgId clk) (messages st) = None"
    using assms by (auto simp: findIndex_None_iff freshModelId_def image_iff)
  moreover have "id_msg (userMsg clk cont atts) \<noteq> modelMsgId clk"
    using assms by (auto simp: freshModelId_def)
  ultimately show ?thesis
    by (simp add: findIndex_append merged_def id_msg_foldl_applyChunk modelMsg_def)
qed

lemma chat_initSession:
  "sendProceeds cont atts st \<Longrightarrow> \<exists>chat. chatInstanceRef (initSession clk st) = Some chat"
  by (auto simp: sendProceeds_def initSession_def split: option.splits if_splits)

lemma handleSendMessage_proceeds:
  assumes "sendProceeds cont atts st"
  shows "handleSendMessage clk cont atts chunks e st =
           sendEnd clk e (sendStream clk chunks (sendBegin clk cont atts (initSession clk st)))"
proof -
  obtain chat where "chatInstanceRef (initSession clk st) = Some chat"
    using chat_initSession [OF assms] by blast
  moreover have "\<not> sendRejected cont atts st" using assms by (simp add: sendProceeds_def)
  ultimately show ?thesis by (simp add: handleSendMessage_def Let_def)
qed

lemma freshModelId_initSession:
  "freshModelId clk cont atts (initSession clk st) = freshModelId clk cont atts st"
  by (simp add: freshModelId_def messages_initSession)

lemma messages_handleSendMessage_Completed:
  assumes "sendProceeds cont atts st" and "freshModelId clk cont atts st"
  shows "messages (handleSendMessage clk cont atts chunks Completed st) =
           messages st @ [userMsg clk cont atts, (merged clk chunks)\<lparr>isStreaming := Some False\<rparr>]"
proof -
  have f: "freshModelId clk cont atts (initSession clk st)"
    using assms(2) by (simp add: freshModelId_initSession)
  show ?thesis
    using findIndex_streamed [OF f, of chunks]
    by (simp add: handleSendMessage_proceeds [OF assms(1)] sendEnd_def messages_setMessages
        messages_streamed [OF f] markDone_def messages_initSession nth_append list_update_append)
qed

lemma messages_handleSendMessage_Failed:
  assumes "sendProceeds cont atts st" and "freshModelId clk cont atts st"
  shows "messages (handleSendMessage clk cont atts chunks Failed st) =
           messages st @ [userMsg clk cont atts, merged clk chunks, errorMsg clk]"
proof -
  have f: "freshModelId clk cont atts (initSession clk st)"
    using assms(2) by (simp add: freshModelId_initSession)
  show ?thesis
    by (simp add: handleSendMessage_proceeds [OF assms(1)] sendEnd_def messages_setMessages
        messages_streamed [OF f] messages_initSession)
qed

lemma isLoading_handleSendMessage:
  assumes "sendProceeds cont atts st"
  shows "isLoading (handleSendMessage clk cont atts chunks e st) = False"
  by (cases e) (simp_all add: handleSendMessage_proceeds [OF assms] sendEnd_def)

lemma natToString_digit: "n < 10 \<Longrightarrow> natToString n = [digit n]"
  by (simp add: natToString.simps)

lemma messages_startNewChat: "messages (startNewChat st) = []"
  by (simp add: startNewChat_def messages_settle)

lemma currentSessionId_startNewChat: "currentSessionId (startNewChat st) = None"
  by (simp add: startNewChat_def currentSessionId_settle)

lemma isLoading_startNewChat: "isLoading (startNewChat st) = isLoading st"
  by (simp add: startNewChat_def isLoading_settle)

lemma isLoading_loadHistory: "isLoading (loadHistory st) = isLoading st"
  by (simp add: loadHistory_def split: option.splits Blob.splits)

lemma freshApp_simps:
  "messages freshApp = []" "currentSessionId freshApp = None" "isLoading freshApp = False"
  by (simp_all add: freshApp_def mount_def messages_startNewChat currentSessionId_startNewChat
      isLoading_startNewChat isLoading_loadHistory)

lemma sessions_freshApp: "sessions freshApp = []"
  by (simp add: freshApp_def mount_def startNewChat_def settle_def saveEffect_def
      historyEffect_def syncEffect_def loadHistory_def)

lemma sendProceeds_freshApp: "trim cont \<noteq> [] \<Longrightarrow> sendProceeds cont atts freshApp"
  by (simp add: sendProceeds_def sendRejected_def freshApp_simps truthy_def)

lemma fresh5: "freshModelId (clockAt 5) cont atts freshApp"
  by (simp add: freshModelId_def freshApp_simps userMsg_def modelMsgId_def clockAt_def toString_def
     natToString_digit digit_def)

lemma chatInstanceRef_settle: "chatInstanceRef (settle st) \<noteq> None"
  by (simp add: settle_def saveEffect_def historyEffect_def)

lemma chatInstanceRef_handleSendMessage:
  assumes "sendProceeds cont atts st"
  shows "chatInstanceRef (handleSendMessage clk cont atts chunks e st) \<noteq> None"
  by (cases e)
    (simp_all add: handleSendMessage_proceeds [OF assms] sendEnd_def setMessages_def
      chatInstanceRef_settle)

lemma currentSessionId_sendStream:
  "currentSessionId (sendStream clk chunks st) = currentSessionId st"
  unfolding sendStream_def
  by (induction chunks arbitrary: st) (simp_all add: setMessages_def currentSessionId_settle)

lemma currentSessionId_handleSendMessage:
  assumes "sendProceeds cont atts st"
  shows "currentSessionId (handleSendMessage clk cont atts chunks e st) =
           currentSessionId (initSession clk st)"
  by (cases e)
    (simp_all add: handleSendMessage_proceeds [OF assms] sendEnd_def setMessages_def
      currentSessionId_settle currentSessionId_sendStream sendBegin_def Let_def)

lemma trim_lit_hi: "trim (lit ''hi'') \<noteq> []"
  by (simp add: trim_def lit_def isWhiteSpace_def)

lemma fresh1: "freshModelId (clockAt 1) cont atts freshApp"
  by (simp add: freshModelId_def freshApp_simps userMsg_def modelMsgId_def clockAt_def toString_def
     natToString_digit digit_def)

lemma first_send_messages:
  "messages (handleSendMessage (clockAt 1) (lit ''hi'') [] [] Failed freshApp) =
     [userMsg (clockAt 1) (lit ''hi'') [], modelMsg (clockAt 1), errorMsg (clockAt 1)]"
proof -
  have p: "sendProceeds (lit ''hi'') [] freshApp"
    by (rule sendProceeds_freshApp) (rule trim_lit_hi)
  show ?thesis
    using messages_handleSendMessage_Failed [OF p fresh1, of "[]"]
    by (simp add: freshApp_simps merged_def)
qed

lemma second_send_ok:
  "sendProceeds (lit ''hi'') [] (handleSendMessage (clockAt 1) (lit ''hi'') [] [] Failed freshApp)"
proof -
  have p: "sendProceeds (lit ''hi'') [] freshApp"
    by (rule sendProceeds_freshApp) (rule trim_lit_hi)
  show ?thesis
    using chatInstanceRef_handleSendMessage [OF p, of "clockAt 1" "[]" Failed]
    by (simp add: sendProceeds_def sendRejected_def trim_lit_hi isLoading_handleSendMessage [OF p])
qed

lemma fresh_second:
  "freshModelId (clockAt 5) (lit ''hi'') []
     (handleSendMessage (clockAt 1) (lit ''hi'') [] [] Failed freshApp)"
  unfolding freshModelId_def first_send_messages
  by (simp add: userMsg_def modelMsg_def errorMsg_def
      modelMsgId_def clockAt_def toString_def natToString_digit digit_def)

lemma trim_lit_sp_hi: "trim (lit '' hi'') = lit ''hi''"
  by (simp add: trim_def lit_def isWhiteSpace_def)

lemma sessions_settle: "sessions (settle st) = sessions (syncEffect st)"
  by (simp add: settle_def saveEffect_def historyEffect_def)

lemma deriveTitle_idem:
  "deriveTitle (session\<lparr>messages_session := msgs, title := deriveTitle session msgs\<rparr>) msgs =
     deriveTitle session msgs"
  by (simp add: deriveTitle_def split: option.splits)

lemma syncSession_idem:
  "syncSession cur msgs (syncSession cur msgs session) = syncSession cur msgs session"
  by (simp add: syncSession_def deriveTitle_idem)

lemma syncEffect_idem: "syncEffect (syncEffect st) = syncEffect st"
  by (simp add: syncEffect_def syncSession_idem split: option.splits)

lemma syncSession_comp_idem:
  "syncSession cur msgs \<circ> syncSession cur msgs = syncSession cur msgs"
  by (rule ext) (simp add: syncSession_idem)

lemma settle_idem: "settle (settle st) = settle st"
  by (simp add: settle_def saveEffect_def historyEffect_def syncEffect_def
      syncSession_comp_idem split: option.splits)

text \<open>The equations that evaluate a send from the blank application.\<close>

lemmas send_eval =
  handleSendMessage_def sendRejected_def trim_def isWhiteSpace_def lit_def freshApp_def
  mount_def loadHistory_def startNewChat_def settle_def saveEffect_def historyEffect_def
  syncEffect_def initSession_def truthy_def sendBegin_def sendStream_def sendEnd_def
  setMessages_def Let_def syncSession_def deriveTitle_def userMsg_def modelMsg_def
  errorMsg_def clockAt_def toString_def natToString_digit digit_def

lemma eval_title_long:
  "map title (sessions (handleSendMessage (clockAt 5) (lit ''Explain recursion in simple terms'') []
        [] Completed freshApp)) = [lit ''Explain recursion in simple te...'']"
  by (simp add: send_eval)

lemma eval_title_short:
  "map title (sessions (handleSendMessage (clockAt 5) (lit ''Hi'') [] [] Completed freshApp)) = [lit ''Hi'']"
  by (simp add: send_eval)

lemma titleExample_simps:
  "sessions titleExample =
     [\<lparr> id_session = toString 5, title = lit ''Nova Conversa'', messages_session = [], createdAt = 5 \<rparr>]"
  "currentSessionId titleExample = Some (toString 5)"
  "messages titleExample = [userMsg (clockAt 5) (lit ''Hi there'') []]"
  by (simp_all add: titleExample_def initSession_def freshApp_simps sessions_freshApp truthy_def
      clockAt_def)






lemma isLoading_sendBegin: "isLoading (sendBegin clk cont atts st)"
  by (simp add: sendBegin_def Let_def isLoading_settle)

lemma hydrate_stringify_message:
  "timestamp m \<noteq> InvalidDate \<Longrightarrow> hydrateMessage (stringifyMessage m) = m"
  by (cases "timestamp m") (simp_all add: hydrateMessage_def stringifyMessage_def toJSON_def newDate_def)

lemma hydrate_stringify_session:
  assumes "\<forall>m \<in> set (messages_session s). timestamp m \<noteq> InvalidDate"
  shows "hydrateSession (stringifySession s) = s"
proof -
  have "map (hydrateMessage \<circ> stringifyMessage) (messages_session s) = messages_session s"
    using assms by (intro map_idI) (simp add: hydrate_stringify_message)
  then show ?thesis by (simp add: hydrateSession_def stringifySession_def)
qed

lemma sessions_startNewChat: "sessions (startNewChat st) = sessions st"
  by (simp add: startNewChat_def sessions_settle syncEffect_def)

lemma sessions_mount:
  "sessions (mount modelId (Some (JsonText parsed))) =
     sort_key (\<lambda>s. - createdAt s) (map hydrateSession parsed)"
  by (simp add: mount_def sessions_startNewChat loadHistory_def)

lemma two_failed_sends_sessions:
  "map (\<lambda>s. map isStreaming (messages_session s))
     (sessions (handleSendMessage (clockAt 5) (lit ''hi'') [] [] Failed
       (handleSendMessage (clockAt 1) (lit ''hi'') [] [] Failed freshApp))) =
     [[None, Some True, None, None, Some True, None]]"
  by (simp add: send_eval)

text \<open>The equations that evaluate the merge of a text fragment.\<close>

lemmas merge_eval =
  mergeChunk_def markDone_def applyChunk_def chunkText_def chunkGrounding_def chunkImage_def
  chunkParts_def firstCandidate_def textFragment_def truthy_def Let_def

lemma messages_handleSendMessage_Completed_any:
  assumes "sendProceeds cont atts st"
  shows "messages (handleSendMessage clk cont atts chunks Completed st) =
           markDone (modelMsgId clk)
             (foldl (\<lambda>ms chunk. mergeChunk (modelMsgId clk) chunk ms)
                (messages st @ [userMsg clk cont atts, modelMsg clk]) chunks)"
  by (simp add: handleSendMessage_proceeds [OF assms] sendEnd_def messages_setMessages
      messages_sendStream messages_sendBegin messages_initSession)

lemma trim_lit_yo: "trim (lit ''yo'') = lit ''yo''"
  by (simp add: trim_def lit_def isWhiteSpace_def)

lemma trim_lit_hi_eq: "trim (lit ''hi'') = lit ''hi''"
  by (simp add: trim_def lit_def isWhiteSpace_def)

lemma first_completed_messages:
  "messages (handleSendMessage (clockAt 1) (lit ''hi'') [] [textFragment (lit ''one'')] Completed freshApp) =
     [userMsg (clockAt 1) (lit ''hi'') [],
      (modelMsg (clockAt 1))\<lparr>content := lit ''one'', isStreaming := Some False\<rparr>]"
proof -
  have p: "sendProceeds (lit ''hi'') [] freshApp"
    by (rule sendProceeds_freshApp) (rule trim_lit_hi)
  have m: "merged (clockAt 1) [textFragment (lit ''one'')] = (modelMsg (clockAt 1))\<lparr>content := lit ''one''\<rparr>"
    by (simp add: merged_def merge_eval modelMsg_def)
  show ?thesis
    using messages_handleSendMessage_Completed [OF p fresh1, of "[textFragment (lit ''one'')]"]
    by (simp add: m freshApp_simps)
qed

lemma second_send_after_completed:
  "sendProceeds (lit ''yo'') []
     (handleSendMessage (clockAt 1) (lit ''hi'') [] [textFragment (lit ''one'')] Completed freshApp)"
proof -
  have p: "sendProceeds (lit ''hi'') [] freshApp"
    by (rule sendProceeds_freshApp) (rule trim_lit_hi)
  have y: "trim (lit ''yo'') \<noteq> []" by (simp add: trim_lit_yo, simp add: lit_def)
  show ?thesis
    using chatInstanceRef_handleSendMessage [OF p, of "clockAt 1" "[textFragment (lit ''one'')]" Completed]
    by (simp add: sendProceeds_def sendRejected_def y isLoading_handleSendMessage [OF p])
qed

lemma same_clock_contents:
  "map content (messages (handleSendMessage (clockAt 1) (lit ''yo'') [] [textFragment (lit ''two'')] Completed
         (handleSendMessage (clockAt 1) (lit ''hi'') [] [textFragment (lit ''one'')] Completed freshApp))) =
       [lit ''hi'', lit ''onetwo'', lit ''yo'', []]"
  unfolding messages_handleSendMessage_Completed_any [OF second_send_after_completed]
    first_completed_messages
  by (simp add: merge_eval userMsg_def modelMsg_def modelMsgId_def clockAt_def toString_def
      natToString_digit digit_def trim_lit_yo trim_lit_hi_eq, simp add: lit_def)

lemma same_clock_flags:
  "map isStreaming (messages (handleSendMessage (clockAt 1) (lit ''yo'') [] [textFragment (lit ''two'')] Completed
         (handleSendMessage (clockAt 1) (lit ''hi'') [] [textFragment (lit ''one'')] Completed freshApp))) =
       [None, Some False, None, Some True]"
  unfolding messages_handleSendMessage_Completed_any [OF second_send_after_completed]
    first_completed_messages
  by (simp add: merge_eval userMsg_def modelMsg_def modelMsgId_def clockAt_def toString_def
      natToString_digit digit_def)

lemma back_clock_contents:
  "map content (messages (handleSendMessage backClock (lit ''hi'') [] [textFragment (lit ''two'')] Completed freshApp)) =
       [lit ''hitwo'', []]"
proof -
  have p: "sendProceeds (lit ''hi'') [] freshApp"
    by (rule sendProceeds_freshApp) (rule trim_lit_hi)
  show ?thesis
    unfolding messages_handleSendMessage_Completed_any [OF p] freshApp_simps
    by (simp add: merge_eval userMsg_def modelMsg_def modelMsgId_def clockAt_def backClock_def toString_def
      natToString_digit digit_def trim_lit_hi_eq, simp add: lit_def)
qed

section \<open>Streaming merge\<close>

text \<open>
  Claim C3 as stated fails where the placeholder's id is already taken. Ids are readings of
  the clock: a second send that reads the same clock as the first finds the first reply
  under the placeholder's id, appends its delta there and finalizes that one, so its own
  placeholder stays empty and streaming; and when the clock steps back by one between the
  user message and the placeholder, the delta lands in the user message.
\<close>

theorem C3_id_collision_counterexample:
  "sendProceeds (lit ''yo'') []
     (handleSendMessage (clockAt 1) (lit ''hi'') [] [textFragment (lit ''one'')] Completed freshApp)
   \<and> map content (messages (handleSendMessage (clockAt 1) (lit ''yo'') [] [textFragment (lit ''two'')] Completed
         (handleSendMessage (clockAt 1) (lit ''hi'') [] [textFragment (lit ''one'')] Completed freshApp))) =
       [lit ''hi'', lit ''onetwo'', lit ''yo'', []]
   \<and> map isStreaming (messages (handleSendMessage (clockAt 1) (lit ''yo'') [] [textFragment (lit ''two'')] Completed
         (handleSendMessage (clockAt 1) (lit ''hi'') [] [textFragment (lit ''one'')] Completed freshApp))) =
       [None, Some False, None, Some True]
   \<and> sendProceeds (lit ''hi'') [] freshApp
   \<and> map content (messages (handleSendMessage backClock (lit ''hi'') [] [textFragment (lit ''two'')] Completed freshApp)) =
       [lit ''hitwo'', []]
   \<and> lit ''two'' \<noteq> []"
  using second_send_after_completed same_clock_contents same_clock_flags back_clock_contents
    sendProceeds_freshApp [OF trim_lit_hi, of "[]"]
  by (simp add: lit_def)

text \<open>
  Claim C3, amended. A send that proceeds, whose placeholder id is not the id of a message
  already in the list (the user message just appended included) and whose fragments each
  carry a text delta and neither citation metadata nor an inline image, ends with the message
  list extended by the user message and the finalized placeholder; the placeholder's content
  is the concatenation of the deltas in delivery order, untrimmed and unfiltered, starting
  from the empty content, and its streaming flag is cleared.
\<close>

theorem C3_text_deltas_concatenate:
  assumes "sendProceeds cont atts st" and "freshModelId clk cont atts st"
    and "map text_chunk chunks = map Some deltas"
    and "\<forall>c \<in> set chunks. chunkGrounding c = None \<and> chunkImage c = None"
  shows "messages (handleSendMessage clk cont atts chunks Completed st) =
           messages st @ [userMsg clk cont atts,
                          (modelMsg clk)\<lparr>content := concat deltas, isStreaming := Some False\<rparr>]"
proof -
  have plain: "\<And>m. \<forall>c \<in> set cs. chunkGrounding c = None \<and> chunkImage c = None \<Longrightarrow>
      foldl (\<lambda>m chunk. applyChunk chunk m) m cs = m\<lparr>content := content m @ concat (map chunkText cs)\<rparr>" for cs
    by (induction cs) (simp_all add: applyChunk_def truthy_def)
  have texts: "map chunkText chunks = deltas"
    using assms(3)
  proof (induction chunks arbitrary: deltas)
    case Nil
    then show ?case by simp
  next
    case (Cons c cs)
    then show ?case by (cases deltas) (auto simp: chunkText_def)
  qed
  have "merged clk chunks = (modelMsg clk)\<lparr>content := concat deltas\<rparr>"
    unfolding merged_def using plain [OF assms(4)] texts by (simp add: modelMsg_def)
  then show ?thesis
    using messages_handleSendMessage_Completed [OF assms(1,2), of chunks] by simp
qed

theorem C3_text_deltas_concatenate_witness:
  "sendProceeds (lit ''hi'') [] freshApp \<and> freshModelId (clockAt 5) (lit ''hi'') [] freshApp
   \<and> map text_chunk [textFragment (lit ''ab''), textFragment (lit ''cd'')] = map Some [lit ''ab'', lit ''cd'']
   \<and> chunkGrounding (textFragment (lit ''ab'')) = None \<and> chunkImage (textFragment (lit ''ab'')) = None
   \<and> chunkGrounding (textFragment (lit ''cd'')) = None \<and> chunkImage (textFragment (lit ''cd'')) = None
   \<and> messages (handleSendMessage (clockAt 5) (lit ''hi'') []
         [textFragment (lit ''ab''), textFragment (lit ''cd'')] Completed freshApp) =
       [userMsg (clockAt 5) (lit ''hi'') [],
        (modelMsg (clockAt 5))\<lparr>content := lit ''abcd'', isStreaming := Some False\<rparr>]"
proof -
  have p: "sendProceeds (lit ''hi'') [] freshApp"
    by (rule sendProceeds_freshApp) (simp add: trim_def lit_def isWhiteSpace_def)
  have f: "freshModelId (clockAt 5) (lit ''hi'') [] freshApp" by (rule fresh5)
  have t: "map text_chunk [textFragment (lit ''ab''), textFragment (lit ''cd'')] = map Some [lit ''ab'', lit ''cd'']"
    by (simp add: textFragment_def)
  have n: "\<forall>c \<in> set [textFragment (lit ''ab''), textFragment (lit ''cd'')].
         chunkGrounding c = None \<and> chunkImage c = None"
    by (simp add: textFragment_def chunkGrounding_def chunkImage_def chunkParts_def firstCandidate_def)
  show ?thesis
    using p f t n C3_text_deltas_concatenate [OF p f t n]
    by (simp add: freshApp_simps lit_def)
qed





section \<open>Failure of a send\<close>

text \<open>
  Claim C1, evaluated on the code. A send from the blank application whose stream delivers
  the text fragments \<open>ab\<close> and \<open>cd\<close> and then fails ends with the user message, the
  placeholder holding \<open>abcd\<close>, and one error message with the fixed notice; the in-flight
  flag is cleared. The placeholder's streaming flag is still set: only the completion path
  clears it.
\<close>

theorem C1_failed_send_keeps_placeholder_streaming:
  "messages (handleSendMessage (clockAt 5) (lit ''hi'') []
       [textFragment (lit ''ab''), textFragment (lit ''cd'')] Failed freshApp) =
     [userMsg (clockAt 5) (lit ''hi'') [],
      (modelMsg (clockAt 5))\<lparr>content := lit ''abcd''\<rparr>,
      errorMsg (clockAt 5)]
   \<and> isStreaming ((modelMsg (clockAt 5))\<lparr>content := lit ''abcd''\<rparr>) = Some True
   \<and> isError (errorMsg (clockAt 5)) = Some True
   \<and> content (errorMsg (clockAt 5)) = errorNotice
   \<and> isLoading (handleSendMessage (clockAt 5) (lit ''hi'') []
       [textFragment (lit ''ab''), textFragment (lit ''cd'')] Failed freshApp) = False"
proof -
  have p: "sendProceeds (lit ''hi'') [] freshApp"
    by (rule sendProceeds_freshApp) (rule trim_lit_hi)
  have m: "merged (clockAt 5) [textFragment (lit ''ab''), textFragment (lit ''cd'')] =
             (modelMsg (clockAt 5))\<lparr>content := lit ''abcd''\<rparr>"
    by (simp add: merged_def applyChunk_def chunkText_def chunkGrounding_def chunkImage_def
        chunkParts_def firstCandidate_def textFragment_def truthy_def modelMsg_def lit_def)
  show ?thesis
    using messages_handleSendMessage_Failed [OF p fresh5, of "[textFragment (lit ''ab''), textFragment (lit ''cd'')]"]
      isLoading_handleSendMessage [OF p]
    by (simp add: m freshApp_simps modelMsg_def errorMsg_def)
qed

text \<open>
  Claim C2, evaluated on the code. After a failed send the placeholder of that send keeps
  its streaming flag, so the next send on the same session shows two streaming messages as
  soon as its own placeholder is appended, and still two when it fails as well, in the
  message list and in the session store.
\<close>

theorem C2_two_streaming_messages_after_failed_send:
  "map isStreaming (messages (sendBegin (clockAt 5) (lit ''hi'') []
       (handleSendMessage (clockAt 1) (lit ''hi'') [] [] Failed freshApp))) =
     [None, Some True, None, None, Some True]
   \<and> map isStreaming (messages (handleSendMessage (clockAt 5) (lit ''hi'') [] [] Failed
       (handleSendMessage (clockAt 1) (lit ''hi'') [] [] Failed freshApp))) =
     [None, Some True, None, None, Some True, None]
   \<and> map (\<lambda>s. map isStreaming (messages_session s))
         (sessions (handleSendMessage (clockAt 5) (lit ''hi'') [] [] Failed
           (handleSendMessage (clockAt 1) (lit ''hi'') [] [] Failed freshApp))) =
       [[None, Some True, None, None, Some True, None]]"
  using messages_handleSendMessage_Failed [OF second_send_ok fresh_second, of "[]"]
  by (simp add: messages_sendBegin first_send_messages merged_def userMsg_def modelMsg_def
      errorMsg_def two_failed_sends_sessions)

section \<open>Session lifecycle\<close>

text \<open>
  Claim C4 as stated fails: the text \<open>" hi"\<close> passes the guards and the appended user
  message holds \<open>"hi"\<close>.
\<close>

theorem C4_untrimmed_text_counterexample:
  "sendProceeds (lit '' hi'') [] freshApp
   \<and> map content (messages (handleSendMessage (clockAt 5) (lit '' hi'') [] [] Completed freshApp)) =
       [lit ''hi'', []]
   \<and> map role (messages (handleSendMessage (clockAt 5) (lit '' hi'') [] [] Completed freshApp)) =
       [User, Model]
   \<and> lit ''hi'' \<noteq> lit '' hi''"
proof -
  have p: "sendProceeds (lit '' hi'') [] freshApp"
    by (rule sendProceeds_freshApp) (simp add: trim_lit_sp_hi, simp add: lit_def)
  show ?thesis
    using p messages_handleSendMessage_Completed [OF p fresh5, of "[]"]
    by (simp add: freshApp_simps merged_def userMsg_def modelMsg_def trim_lit_sp_hi, simp add: lit_def)
qed

text \<open>
  Claim C4, amended. For every send that proceeds, the message list after the synchronous
  prefix is the previous list, a user message and the placeholder; the user message's content
  is the given text with leading and trailing white space removed, and its attachments are
  the given attachments in order.
\<close>

theorem C4_user_message_trimmed:
  assumes "sendProceeds cont atts st"
  shows "handleSendMessage clk cont atts chunks e st =
           sendEnd clk e (sendStream clk chunks (sendBegin clk cont atts (initSession clk st)))
         \<and> messages (sendBegin clk cont atts (initSession clk st)) =
             messages st @ [userMsg clk cont atts, modelMsg clk]
         \<and> role (userMsg clk cont atts) = User
         \<and> content (userMsg clk cont atts) = trim cont
         \<and> attachments (userMsg clk cont atts) = Some atts"
  using handleSendMessage_proceeds [OF assms, of clk chunks e]
  by (simp add: messages_sendBegin messages_initSession userMsg_def)

theorem C4_user_message_trimmed_witness:
  "sendProceeds (lit '' hi'') [lit ''data:image/png;base64,AAAA''] freshApp
   \<and> messages (sendBegin (clockAt 5) (lit '' hi'') [lit ''data:image/png;base64,AAAA'']
         (initSession (clockAt 5) freshApp)) =
       [userMsg (clockAt 5) (lit '' hi'') [lit ''data:image/png;base64,AAAA''], modelMsg (clockAt 5)]
   \<and> content (userMsg (clockAt 5) (lit '' hi'') [lit ''data:image/png;base64,AAAA'']) = lit ''hi''
   \<and> attachments (userMsg (clockAt 5) (lit '' hi'') [lit ''data:image/png;base64,AAAA'']) =
       Some [lit ''data:image/png;base64,AAAA'']"
proof -
  have p: "sendProceeds (lit '' hi'') [lit ''data:image/png;base64,AAAA''] freshApp"
    by (rule sendProceeds_freshApp) (simp add: trim_lit_sp_hi, simp add: lit_def)
  show ?thesis
    using p C4_user_message_trimmed [OF p, of "clockAt 5" "[]" Completed]
    by (simp add: freshApp_simps trim_lit_sp_hi)
qed

text \<open>
  Claim C5. When a render finds a user message in the active message list while the active
  session's title is still \<open>Nova Conversa\<close>, the title becomes the first user message's
  content cut to 30 code units, followed by \<open>...\<close> exactly when the content is longer than
  30. Sending \<open>Explain recursion in simple terms\<close> from the blank application gives the
  title \<open>Explain recursion in simple te...\<close>, and sending \<open>Hi\<close> gives \<open>Hi\<close>.
\<close>

theorem C5_title_derivation:
  assumes "i < length (sessions st)"
    and "currentSessionId st = Some cur" and "cur \<noteq> []"
    and "id_session (sessions st ! i) = cur"
    and "title (sessions st ! i) = lit ''Nova Conversa''"
    and "find (\<lambda>m. role m = User) (messages st) = Some firstUserMsg"
  shows "title (sessions (settle st) ! i) =
           take 30 (content firstUserMsg)
             @ (if 30 < length (content firstUserMsg) then lit ''...'' else [])
         \<and> map title (sessions (handleSendMessage (clockAt 5)
               (lit ''Explain recursion in simple terms'') [] [] Completed freshApp)) =
             [lit ''Explain recursion in simple te...'']
         \<and> map title (sessions (handleSendMessage (clockAt 5) (lit ''Hi'') [] [] Completed freshApp)) =
             [lit ''Hi'']"
proof -
  have ne: "messages st \<noteq> []" using assms(6) by auto
  have "title (sessions (settle st) ! i) = deriveTitle (sessions st ! i) (messages st)"
    using assms(1-4) ne by (simp add: sessions_settle syncEffect_def syncSession_def)
  also have "\<dots> = take 30 (content firstUserMsg)
             @ (if 30 < length (content firstUserMsg) then lit ''...'' else [])"
    using assms(5,6) ne by (simp add: deriveTitle_def)
  finally show ?thesis by (simp add: eval_title_long eval_title_short)
qed

theorem C5_title_derivation_witness:
  "0 < length (sessions titleExample)
   \<and> currentSessionId titleExample = Some (toString 5) \<and> toString 5 \<noteq> []
   \<and> id_session (sessions titleExample ! 0) = toString 5
   \<and> title (sessions titleExample ! 0) = lit ''Nova Conversa''
   \<and> find (\<lambda>m. role m = User) (messages titleExample) = Some (userMsg (clockAt 5) (lit ''Hi there'') [])
   \<and> title (sessions (settle titleExample) ! 0) = lit ''Hi there''"
proof -
  have h1: "0 < length (sessions titleExample)" by (simp add: titleExample_simps)
  have h2: "currentSessionId titleExample = Some (toString 5)" by (simp add: titleExample_simps)
  have h3: "toString 5 \<noteq> []" by (simp add: toString_def natToString_digit)
  have h4: "id_session (sessions titleExample ! 0) = toString 5" by (simp add: titleExample_simps)
  have h5: "title (sessions titleExample ! 0) = lit ''Nova Conversa''" by (simp add: titleExample_simps)
  have h6: "find (\<lambda>m. role m = User) (messages titleExample) = Some (userMsg (clockAt 5) (lit ''Hi there'') [])"
    by (simp add: titleExample_simps userMsg_def)
  have t: "trim (lit ''Hi there'') = lit ''Hi there''"
    by (simp add: trim_def lit_def isWhiteSpace_def)
  show ?thesis
    using h1 h2 h3 h4 h5 h6 C5_title_derivation [OF h1 h2 h3 h4 h5 h6]
    by (simp add: userMsg_def t, simp add: lit_def)
qed

text \<open>
  Claim C7. While a send is in flight, selecting a session changes nothing: the state, and
  with it the active session id, the message list and the session store, is as before.
\<close>

theorem C7_select_rejected_while_sending:
  assumes "isLoading st"
  shows "handleSelectSession session st = st
         \<and> currentSessionId (handleSelectSession session st) = currentSessionId st
         \<and> messages (handleSelectSession session st) = messages st
         \<and> sessions (handleSelectSession session st) = sessions st"
  using assms by (simp add: handleSelectSession_def)

theorem C7_select_rejected_while_sending_witness:
  "isLoading (sendBegin (clockAt 5) (lit ''hi'') [] (initSession (clockAt 5) freshApp))
   \<and> handleSelectSession (sessionAt 1 [])
       (sendBegin (clockAt 5) (lit ''hi'') [] (initSession (clockAt 5) freshApp)) =
     sendBegin (clockAt 5) (lit ''hi'') [] (initSession (clockAt 5) freshApp)"
  using C7_select_rejected_while_sending [OF isLoading_sendBegin,
      of "sessionAt 1 []" "clockAt 5" "lit ''hi''" "[]" "initSession (clockAt 5) freshApp"]
  by (simp add: isLoading_sendBegin)

section \<open>History projection\<close>

text \<open>
  Claim C8. After every render the chat handle is seeded with the projection of the message
  list: one turn per message that is not an error message, in order, holding the message's
  role and one text part with its content. Its length is the number of non-error messages,
  and generated images and attachments have no influence on it.
\<close>

theorem C8_history_projection:
  "map_option history (chatInstanceRef (settle st)) = Some (projectHistory (messages st))
   \<and> projectHistory msgs =
       map (\<lambda>m. \<lparr> role_turn = role m, parts_turn = [\<lparr> text_part = content m \<rparr>] \<rparr>)
         (filter (\<lambda>m. isError m \<noteq> Some True) msgs)
   \<and> length (projectHistory msgs) = length (filter (\<lambda>m. isError m \<noteq> Some True) msgs)
   \<and> projectHistory (map (\<lambda>m. m\<lparr>image := img m, attachments := att m\<rparr>) msgs) = projectHistory msgs"
proof -
  have "messages (syncEffect st) = messages st" "selectedModelId (syncEffect st) = selectedModelId st"
    by (simp_all add: syncEffect_def split: option.splits)
  then have a: "map_option history (chatInstanceRef (settle st)) = Some (projectHistory (messages st))"
    by (simp add: settle_def saveEffect_def historyEffect_def getGeminiChat_def)
  have b: "projectHistory (map (\<lambda>m. m\<lparr>image := img m, attachments := att m\<rparr>) msgs) = projectHistory msgs"
    by (induction msgs) (simp_all add: projectHistory_def)
  show ?thesis using a b by (simp add: projectHistory_def)
qed

section \<open>Persistence\<close>

text \<open>
  Claim C9 as stated fails: a collection that is not ordered newest first comes back
  reordered, and an invalid timestamp comes back as the epoch.
\<close>

theorem C9_roundtrip_counterexample:
  "sessions (mount (lit ''gemini-2.5-flash'')
       (localStorage (saveEffect (freshApp\<lparr>sessions := [sessionAt 1 [], sessionAt 2 []]\<rparr>)))) =
     [sessionAt 2 [], sessionAt 1 []]
   \<and> [sessionAt 2 [], sessionAt 1 []] \<noteq> [sessionAt 1 [], sessionAt 2 []]
   \<and> map (map timestamp \<circ> messages_session) (sessions (mount (lit ''gemini-2.5-flash'')
       (localStorage (saveEffect (freshApp\<lparr>sessions := [sessionAt 1 [invalidMsg]]\<rparr>))))) = [[Date 0]]
   \<and> Date 0 \<noteq> timestamp invalidMsg"
  by (simp add: saveEffect_def stringify_def sessions_mount stringifySession_def hydrateSession_def
      stringifyMessage_def hydrateMessage_def toJSON_def newDate_def sessionAt_def invalidMsg_def
      modelMsg_def)

text \<open>
  Claim C9, amended. For every session collection ordered by \<open>createdAt\<close> newest first
  whose message timestamps are valid dates, loading the serialized collection gives the
  collection back, with every \<open>createdAt\<close> and every timestamp equal to the original; and
  the save effect writes exactly this serialization whenever the collection is not empty.
\<close>

theorem C9_roundtrip_newest_first:
  assumes "sorted_wrt (\<lambda>a b. createdAt b \<le> createdAt a) ss"
    and "\<forall>s \<in> set ss. \<forall>m \<in> set (messages_session s). timestamp m \<noteq> InvalidDate"
  shows "sessions (mount modelId (Some (stringify ss))) = ss
         \<and> map createdAt (sessions (mount modelId (Some (stringify ss)))) = map createdAt ss
         \<and> map (map timestamp \<circ> messages_session) (sessions (mount modelId (Some (stringify ss)))) =
             map (map timestamp \<circ> messages_session) ss
         \<and> (ss \<noteq> [] \<longrightarrow> localStorage (saveEffect (st\<lparr>sessions := ss\<rparr>)) = Some (stringify ss))"
proof -
  have "map (hydrateSession \<circ> stringifySession) ss = ss"
    using assms(2) by (intro map_idI) (simp add: hydrate_stringify_session)
  moreover have "sorted (map (\<lambda>s. - createdAt s) ss)"
    using assms(1) by (simp add: sorted_map)
  ultimately have "sessions (mount modelId (Some (stringify ss))) = ss"
    by (simp add: stringify_def sessions_mount sort_key_id_if_sorted)
  then show ?thesis by (simp add: saveEffect_def)
qed

theorem C9_roundtrip_newest_first_witness:
  "sorted_wrt (\<lambda>a b. createdAt b \<le> createdAt a)
     [sessionAt 2 [modelMsg (clockAt 5)], sessionAt 1 [errorMsg (clockAt 5)]]
   \<and> timestamp (modelMsg (clockAt 5)) \<noteq> InvalidDate \<and> timestamp (errorMsg (clockAt 5)) \<noteq> InvalidDate
   \<and> [sessionAt 2 [modelMsg (clockAt 5)], sessionAt 1 [errorMsg (clockAt 5)]] \<noteq> []
   \<and> sessions (mount (lit ''gemini-2.5-flash'')
        (Some (stringify [sessionAt 2 [modelMsg (clockAt 5)], sessionAt 1 [errorMsg (clockAt 5)]]))) =
       [sessionAt 2 [modelMsg (clockAt 5)], sessionAt 1 [errorMsg (clockAt 5)]]
   \<and> localStorage (saveEffect
        (freshApp\<lparr>sessions := [sessionAt 2 [modelMsg (clockAt 5)], sessionAt 1 [errorMsg (clockAt 5)]]\<rparr>)) =
       Some (stringify [sessionAt 2 [modelMsg (clockAt 5)], sessionAt 1 [errorMsg (clockAt 5)]])"
proof -
  have h1: "sorted_wrt (\<lambda>a b. createdAt b \<le> createdAt a)
     [sessionAt 2 [modelMsg (clockAt 5)], sessionAt 1 [errorMsg (clockAt 5)]]"
    by (simp add: sessionAt_def)
  have h2: "\<forall>s \<in> set [sessionAt 2 [modelMsg (clockAt 5)], sessionAt 1 [errorMsg (clockAt 5)]].
      \<forall>m \<in> set (messages_session s). timestamp m \<noteq> InvalidDate"
    by (simp add: sessionAt_def modelMsg_def errorMsg_def)
  show ?thesis
    using h1 C9_roundtrip_newest_first [OF h1 h2, of "lit ''gemini-2.5-flash''" freshApp]
    by (simp add: modelMsg_def errorMsg_def)
qed

end
